theory Spec2Isabelle
  imports Complex_Main
begin

section \<open>Numbers\<close>

text \<open>
  The programme computes with Python floats and pandas float64 columns. Finite values are
  modelled as exact reals (no rounding error, no overflow); the three special values that
  float64 division produces are kept, because pandas does not raise on a zero divisor:
  \<open>x / 0\<close> is \<open>NaN\<close> for \<open>x = 0\<close>, \<open>+inf\<close> for \<open>x > 0\<close>, \<open>-inf\<close> for \<open>x < 0\<close>.
  Zero is unsigned in this model.
\<close>

datatype fl = Num real | PInf | NInf | NaN

fun fl_sign :: "fl \<Rightarrow> real" where
  "fl_sign (Num a) = sgn a"
| "fl_sign PInf = 1"
| "fl_sign NInf = - 1"
| "fl_sign NaN = 0"

definition fl_of_sign :: "real \<Rightarrow> fl" where
  "fl_of_sign s = (if s = 0 then NaN else if 0 < s then PInf else NInf)"

fun fl_mul :: "fl \<Rightarrow> fl \<Rightarrow> fl" where
  "fl_mul (Num a) (Num b) = Num (a * b)"
| "fl_mul NaN y = NaN"
| "fl_mul x NaN = NaN"
| "fl_mul x y = fl_of_sign (fl_sign x * fl_sign y)"

fun fl_div :: "fl \<Rightarrow> fl \<Rightarrow> fl" where
  "fl_div (Num a) (Num b) = (if b = 0 then fl_of_sign (sgn a) else Num (a / b))"
| "fl_div NaN y = NaN"
| "fl_div x NaN = NaN"
| "fl_div (Num a) y = Num 0"
| "fl_div x (Num b) = fl_of_sign (fl_sign x * (if b < 0 then - 1 else 1))"
| "fl_div x y = NaN"

text \<open>\<open>clip(upper=u)\<close> of pandas: values above \<open>u\<close> become \<open>u\<close>, \<open>NaN\<close> stays \<open>NaN\<close>.\<close>

fun clip_upper :: "real \<Rightarrow> fl \<Rightarrow> fl" where
  "clip_upper u (Num a) = Num (min a u)"
| "clip_upper u PInf = Num u"
| "clip_upper u NInf = NInf"
| "clip_upper u NaN = NaN"

text \<open>Python's \<open>int(x)\<close> on a float truncates towards zero.\<close>

definition py_int :: "real \<Rightarrow> int" where
  "py_int x = (if 0 \<le> x then \<lfloor>x\<rfloor> else \<lceil>x\<rceil>)"

text \<open>
  \<open>round(x, n)\<close> of Python and \<open>.round(n)\<close> of pandas round to \<open>n\<close> decimals, a tie going
  to the even neighbour.
\<close>

definition round_half_even :: "real \<Rightarrow> int" where
  "round_half_even x =
     (let f = \<lfloor>x\<rfloor>; d = x - of_int f
      in if d < 1 / 2 then f
         else if 1 / 2 < d then f + 1
         else if even f then f else f + 1)"

definition py_round :: "real \<Rightarrow> nat \<Rightarrow> real" where
  "py_round x n = of_int (round_half_even (x * 10 ^ n)) / 10 ^ n"

fun fl_round :: "fl \<Rightarrow> nat \<Rightarrow> fl" where
  "fl_round (Num a) n = Num (py_round a n)"
| "fl_round x n = x"

section \<open>Data model\<close>

datatype shift = Morning | Afternoon | Night

datatype machine = Mixer | Filler | Packer | Conveyor

text \<open>The downtime reasons; \<open>No_Reason\<close> is the string \<open>'None'\<close> of the source.\<close>

datatype reason = Breakdown | Changeover | Cleaning | Minor_Stoppage | Power_Failure | No_Reason

text \<open>
  One row of a DataFrame. The eleven columns written by the simulator are always there;
  a column that is assigned later (\<open>df['Availability'] = ...\<close>) is \<open>None\<close> as long as the
  table does not have it. \<open>Date\<close> is kept as the day offset from 2025-07-01 instead of
  the formatted string.
\<close>

record row =
  Date :: nat
  Shift :: shift
  Machine_Name :: machine
  Planned_Production_Time :: real
  Downtime_Minutes :: real
  Downtime_Reason :: reason
  Ideal_Cycle_Time :: real
  Actual_Cycle_Time :: real
  Total_Units_Produced :: real
  Defective_Units :: real
  Good_Units :: real
  Availability :: "fl option"
  Performance :: "fl option"
  Quality :: "fl option"
  OEE :: "fl option"
  Speed_Loss_Percent :: "fl option"
  Defect_Rate_Percent :: "fl option"

type_synonym dataframe = "row list"

section \<open>Record simulator (\<open>OEEAnalyzer.generate_production_data\<close>)\<close>

text \<open>\<open>self.cycle_times\<close> and \<open>self.planned_production_minutes\<close>.\<close>

fun ideal_cycle_time :: "machine \<Rightarrow> real" where
  "ideal_cycle_time Mixer = 45"
| "ideal_cycle_time Filler = 5 / 2"
| "ideal_cycle_time Packer = 3"
| "ideal_cycle_time Conveyor = 9 / 5"

fun actual_range :: "machine \<Rightarrow> real \<times> real" where
  "actual_range Mixer = (48, 65)"
| "actual_range Filler = (14 / 5, 21 / 5)"
| "actual_range Packer = (16 / 5, 24 / 5)"
| "actual_range Conveyor = (19 / 10, 5 / 2)"

fun planned_production_minutes :: "shift \<Rightarrow> real" where
  "planned_production_minutes Morning = 480"
| "planned_production_minutes Afternoon = 480"
| "planned_production_minutes Night = 420"

fun downtime_mean :: "machine \<Rightarrow> real" where
  "downtime_mean Mixer = 45"
| "downtime_mean Filler = 35"
| "downtime_mean Packer = 25"
| "downtime_mean Conveyor = 15"

fun defect_range :: "machine \<Rightarrow> real \<times> real" where
  "defect_range Filler = (4 / 5, 7 / 2)"
| "defect_range Packer = (1 / 2, 2)"
| "defect_range m = (1 / 5, 1)"

text \<open>
  The random draws of one loop iteration, as inputs: \<open>random.randint(0, 180)\<close>,
  \<open>random.random()\<close>, the two \<open>random.choice\<close>s over shifts and machines,
  \<open>np.random.normal(downtime_mean, 15)\<close>, the \<open>random.choice\<close> between the two reasons
  of a bracket (\<open>True\<close> picks the second), and the two \<open>np.random.uniform\<close>s.
\<close>

record draws =
  days_offset :: nat
  skip_draw :: real
  shift_draw :: shift
  machine_draw :: machine
  normal_draw :: real
  reason_draw :: bool
  cycle_draw :: real
  defect_draw :: real

text \<open>What the random library guarantees about the draws.\<close>

definition valid_draws :: "draws \<Rightarrow> bool" where
  "valid_draws d \<longleftrightarrow>
     days_offset d \<le> 180 \<and>
     0 \<le> skip_draw d \<and> skip_draw d < 1 \<and>
     fst (actual_range (machine_draw d)) \<le> cycle_draw d \<and>
     cycle_draw d < snd (actual_range (machine_draw d)) \<and>
     fst (defect_range (machine_draw d)) \<le> defect_draw d \<and>
     defect_draw d < snd (defect_range (machine_draw d))"

text \<open>\<open>datetime(2025, 7, 1)\<close> is a Tuesday, \<open>weekday() = 1\<close>; Sunday is 6.\<close>

definition weekday :: "nat \<Rightarrow> nat" where
  "weekday off = (1 + off) mod 7"

definition choice2 :: "'a \<Rightarrow> 'a \<Rightarrow> bool \<Rightarrow> 'a" where
  "choice2 a b pick = (if pick then b else a)"

text \<open>The downtime before it is rounded for storage (lines 87-88).\<close>

definition raw_downtime :: "draws \<Rightarrow> real" where
  "raw_downtime d =
     min (max 0 (normal_draw d)) (planned_production_minutes (shift_draw d) * (1 / 2))"

definition assign_reason :: "real \<Rightarrow> bool \<Rightarrow> reason" where
  "assign_reason downtime_minutes pick =
     (if 0 < downtime_minutes then
        (if 60 < downtime_minutes then choice2 Breakdown Changeover pick
         else if 30 < downtime_minutes then choice2 Cleaning Breakdown pick
         else choice2 Minor_Stoppage Power_Failure pick)
      else No_Reason)"

text \<open>One iteration of the loop: \<open>None\<close> when the iteration is skipped by \<open>continue\<close>.\<close>

definition generate_record :: "draws \<Rightarrow> row option" where
  "generate_record d =
     (if 6 \<le> weekday (days_offset d) \<and> skip_draw d < 7 / 10 then None
      else
        let shift = shift_draw d;
            machine = machine_draw d;
            planned_time = planned_production_minutes shift;
            downtime_minutes = raw_downtime d;
            reason = assign_reason downtime_minutes (reason_draw d);
            ideal_cycle = ideal_cycle_time machine;
            actual_cycle = cycle_draw d;
            available_time = planned_time - downtime_minutes;
            total_units = py_int (available_time * 60 / actual_cycle);
            defect_rate = defect_draw d;
            defective_units = py_int (of_int total_units * defect_rate / 100)
        in Some \<lparr> Date = days_offset d,
                  Shift = shift,
                  Machine_Name = machine,
                  Planned_Production_Time = planned_time,
                  Downtime_Minutes = py_round downtime_minutes 1,
                  Downtime_Reason = reason,
                  Ideal_Cycle_Time = ideal_cycle,
                  Actual_Cycle_Time = py_round actual_cycle 2,
                  Total_Units_Produced = of_int total_units,
                  Defective_Units = of_int defective_units,
                  Good_Units = of_int (total_units - defective_units),
                  Availability = None, Performance = None, Quality = None, OEE = None,
                  Speed_Loss_Percent = None, Defect_Rate_Percent = None \<rparr>)"

text \<open>The rows appended to \<open>data\<close> by the whole loop, one list element of draws per iteration.\<close>

definition generate_rows :: "draws list \<Rightarrow> dataframe" where
  "generate_rows ds = List.map_filter generate_record ds"

section \<open>OEE calculator (\<open>OEEAnalyzer.calculate_oee_metrics\<close>), row by row\<close>

text \<open>
  The column expressions of lines 150-166 on one row: the four raw values first, the
  composite from the raw (unclipped) components, then \<open>clip(upper=100)\<close> on all four.
\<close>

definition raw_availability :: "row \<Rightarrow> fl" where
  "raw_availability r =
     fl_mul (fl_div (Num (Planned_Production_Time r - Downtime_Minutes r))
                    (Num (Planned_Production_Time r))) (Num 100)"

definition raw_performance :: "row \<Rightarrow> fl" where
  "raw_performance r =
     (let operating_time = Planned_Production_Time r - Downtime_Minutes r
      in fl_mul (fl_div (Num (Ideal_Cycle_Time r * Total_Units_Produced r))
                        (Num (operating_time * 60))) (Num 100))"

definition raw_quality :: "row \<Rightarrow> fl" where
  "raw_quality r = fl_mul (fl_div (Num (Good_Units r)) (Num (Total_Units_Produced r))) (Num 100)"

definition raw_oee :: "fl \<Rightarrow> fl \<Rightarrow> fl \<Rightarrow> fl" where
  "raw_oee a p q = fl_div (fl_mul (fl_mul a p) q) (Num 10000)"

definition calc_row :: "row \<Rightarrow> row" where
  "calc_row r =
     (let a = raw_availability r;
          p = raw_performance r;
          q = raw_quality r;
          oee = raw_oee a p q
      in r \<lparr> Availability := Some (clip_upper 100 a),
             Performance := Some (clip_upper 100 p),
             Quality := Some (clip_upper 100 q),
             OEE := Some (clip_upper 100 oee) \<rparr>)"

text \<open>A row with the eleven simulator columns and no derived column.\<close>

definition mk_row ::
  "shift \<Rightarrow> machine \<Rightarrow> real \<Rightarrow> real \<Rightarrow> reason \<Rightarrow> real \<Rightarrow> real \<Rightarrow> real \<Rightarrow> real \<Rightarrow> row" where
  "mk_row s m planned downtime rsn ideal actual units defects =
     \<lparr> Date = 0, Shift = s, Machine_Name = m,
       Planned_Production_Time = planned, Downtime_Minutes = downtime,
       Downtime_Reason = rsn, Ideal_Cycle_Time = ideal, Actual_Cycle_Time = actual,
       Total_Units_Produced = units, Defective_Units = defects,
       Good_Units = units - defects,
       Availability = None, Performance = None, Quality = None, OEE = None,
       Speed_Loss_Percent = None, Defect_Rate_Percent = None \<rparr>"

definition record_A :: row where
  "record_A = mk_row Morning Filler 480 0 No_Reason (5 / 2) (5 / 2) 11520 0"

definition record_B :: row where
  "record_B = mk_row Morning Filler 480 240 Breakdown (5 / 2) 5 2880 288"

text \<open>The four metric columns of a row.\<close>

definition metrics :: "row \<Rightarrow> fl option \<times> fl option \<times> fl option \<times> fl option" where
  "metrics r = (Availability r, Performance r, Quality r, OEE r)"

section \<open>Predicates and example inputs\<close>

text \<open>
A metric column that holds a finite percentage between 0 and 100.
\<close>

definition in_pct :: "fl option \<Rightarrow> bool" where
  "in_pct v = (case v of Some (Num a) \<Rightarrow> 0 \<le> a \<and> a \<le> 100 | _ \<Rightarrow> False)"

text \<open>
A weekday draw for the Filler in the morning shift, and the row the simulator
  makes of it.
\<close>

definition draws_ex :: draws where
  "draws_ex = \<lparr> days_offset = 3, skip_draw = 1 / 2, shift_draw = Morning,
                machine_draw = Filler, normal_draw = 3526 / 100, reason_draw = False,
                cycle_draw = 3, defect_draw = 2 \<rparr>"

definition row_ex :: row where
  "row_ex = mk_row Morning Filler 480 (353 / 10) Cleaning (5 / 2) 3 8894 177 \<lparr> Date := 3 \<rparr>"

text \<open>
A finite value of at least 50 (per cent).
\<close>

definition at_least_half :: "fl \<Rightarrow> bool" where
  "at_least_half v = (case v of Num a \<Rightarrow> 50 \<le> a | _ \<Rightarrow> False)"

text \<open>
A Conveyor draw whose normal sample is 0.04 minutes.
\<close>

definition draws_tiny :: draws where
  "draws_tiny = \<lparr> days_offset = 0, skip_draw = 1 / 2, shift_draw = Morning,
                  machine_draw = Conveyor, normal_draw = 1 / 25, reason_draw = False,
                  cycle_draw = 2, defect_draw = 1 / 2 \<rparr>"

text \<open>
A row whose units exceed what the ideal cycle time allows in the operating time
  (raw performance 125), with 10 per cent defects.
\<close>

definition record_over :: row where
  "record_over = mk_row Morning Filler 480 0 No_Reason (5 / 2) 2 14400 1440"

text \<open>
A row with no units produced.
\<close>

definition record_zero :: row where
  "record_zero = mk_row Morning Filler 480 0 No_Reason (5 / 2) (5 / 2) 0 0"

section \<open>Tables as shared objects\<close>

text \<open>
  A DataFrame is a mutable object: variables and attributes hold references to it, and
  \<open>df['X'] = ...\<close> changes the object every holder sees. The heap is the list of
  all tables, a reference is an index into it, and \<open>.copy()\<close> allocates a new table
  at the end. A reference held by the programme always points into the heap.
\<close>

type_synonym ref = nat

type_synonym heap = "dataframe list"

datatype py_error = KeyError | TypeError | AttributeError

definition alloc :: "heap \<Rightarrow> dataframe \<Rightarrow> ref \<times> heap" where
  "alloc h df = (length h, h @ [df])"

text \<open>
The two table attributes of \<open>OEEAnalyzer\<close>; Python's \<open>None\<close> is \<open>None\<close>.
\<close>

record OEEAnalyzer =
  raw_data :: "ref option"
  oee_results :: "ref option"

definition OEEAnalyzer_init :: OEEAnalyzer where
  "OEEAnalyzer_init = \<lparr> raw_data = None, oee_results = None \<rparr>"

text \<open>
  \<open>generate_production_data\<close>: the loop, \<open>pd.DataFrame(data)\<close>, \<open>self.raw_data = df\<close>.
  The summary printed afterwards reads \<open>df['Date']\<close>, which raises \<open>KeyError\<close> on a
  table built from no rows.
\<close>

definition generate_production_data ::
  "heap \<Rightarrow> OEEAnalyzer \<Rightarrow> draws list \<Rightarrow> py_error + (ref \<times> OEEAnalyzer \<times> heap)" where
  "generate_production_data h self ds =
     (let data = generate_rows ds;
          (df, h1) = alloc h data;
          self1 = self \<lparr> raw_data := Some df \<rparr>
      in if data = [] then Inl KeyError else Inr (df, self1, h1))"

text \<open>
  \<open>calculate_oee_metrics(df)\<close>: the four column assignments and the clip are made on
  the table \<open>df\<close> refers to; \<open>self.oee_results\<close> becomes a copy of the result and
  \<open>df\<close> itself is returned. The averages it prints only read the table.
\<close>

definition calculate_oee_metrics ::
  "heap \<Rightarrow> OEEAnalyzer \<Rightarrow> ref \<Rightarrow> ref \<times> OEEAnalyzer \<times> heap" where
  "calculate_oee_metrics h self df =
     (let h1 = h[df := map calc_row (h ! df)];
          (c, h2) = alloc h1 (h1 ! df)
      in (df, self \<lparr> oee_results := Some c \<rparr>, h2))"

text \<open>
\<open>DetailedOEEAnalysis.__init__\<close> stores the analyzer's two references, not copies.
\<close>

record DetailedOEEAnalysis =
  data :: "ref option"
  detailed_raw_data :: "ref option"

definition DetailedOEEAnalysis_init :: "OEEAnalyzer \<Rightarrow> DetailedOEEAnalysis" where
  "DetailedOEEAnalysis_init analyzer =
     \<lparr> data = oee_results analyzer, detailed_raw_data = raw_data analyzer \<rparr>"

text \<open>
  \<open>speed_loss_analysis\<close> and \<open>quality_loss_analysis\<close> assign one column of
  \<open>self.data\<close> and then build their summaries by \<open>groupby\<close>, \<open>agg\<close> and
  \<open>nlargest\<close>, which return new tables and are left out here. Subscripting
  \<open>None\<close> raises \<open>TypeError\<close>.
\<close>

definition speed_loss_percent :: "row \<Rightarrow> fl" where
  "speed_loss_percent r =
     fl_round (fl_mul (fl_div (Num (Actual_Cycle_Time r - Ideal_Cycle_Time r))
                              (Num (Ideal_Cycle_Time r))) (Num 100)) 2"

definition speed_loss_analysis :: "heap \<Rightarrow> DetailedOEEAnalysis \<Rightarrow> py_error + heap" where
  "speed_loss_analysis h self =
     (case data self of
        None \<Rightarrow> Inl TypeError
      | Some a \<Rightarrow>
          Inr (h[a := map (\<lambda>r. r \<lparr> Speed_Loss_Percent := Some (speed_loss_percent r) \<rparr>) (h ! a)]))"

definition defect_rate_percent :: "row \<Rightarrow> fl" where
  "defect_rate_percent r =
     fl_round (fl_mul (fl_div (Num (Defective_Units r)) (Num (Total_Units_Produced r)))
                      (Num 100)) 3"

definition quality_loss_analysis :: "heap \<Rightarrow> DetailedOEEAnalysis \<Rightarrow> py_error + heap" where
  "quality_loss_analysis h self =
     (case data self of
        None \<Rightarrow> Inl TypeError
      | Some a \<Rightarrow>
          Inr (h[a := map (\<lambda>r. r \<lparr> Defect_Rate_Percent := Some (defect_rate_percent r) \<rparr>) (h ! a)]))"

text \<open>
  \<open>OEEImprovementPlan.__init__\<close> keeps a copy of \<open>analyzer.oee_results\<close> as
  \<open>current_data\<close> (the scalar \<open>baseline_oee\<close> is left out); \<open>None.copy()\<close>
  raises \<open>AttributeError\<close>.
\<close>

record OEEImprovementPlan =
  current_data :: ref

definition OEEImprovementPlan_init ::
  "heap \<Rightarrow> OEEAnalyzer \<Rightarrow> py_error + (OEEImprovementPlan \<times> heap)" where
  "OEEImprovementPlan_init h analyzer =
     (case oee_results analyzer of
        None \<Rightarrow> Inl AttributeError
      | Some a \<Rightarrow> (let (c, h1) = alloc h (h ! a) in Inr (\<lparr> current_data = c \<rparr>, h1)))"

text \<open>
  Lines 153-173 of \<open>simulate_improvement_impact\<close> on one row of \<open>improved_data\<close>:
  each assignment reads the columns as left by the assignments before it.
\<close>

definition improve_row :: "row \<Rightarrow> row" where
  "improve_row r =
     (let r1 = r \<lparr> Downtime_Minutes := Downtime_Minutes r * (65 / 100) \<rparr>;
          a = raw_availability r1;
          r2 = r1 \<lparr> Actual_Cycle_Time := Actual_Cycle_Time r1 * (85 / 100) \<rparr>;
          p = raw_performance r2;
          r3 = r2 \<lparr> Defective_Units := Defective_Units r2 * (1 / 2) \<rparr>;
          r4 = r3 \<lparr> Good_Units := Total_Units_Produced r3 - Defective_Units r3 \<rparr>;
          q = raw_quality r4;
          oee = raw_oee a p q
      in r4 \<lparr> Availability := Some (clip_upper 100 a),
              Performance := Some (clip_upper 100 p),
              Quality := Some (clip_upper 100 q),
              OEE := Some (clip_upper 100 oee) \<rparr>)"

text \<open>
  \<open>simulate_improvement_impact\<close>: \<open>improved_data = self.current_data.copy()\<close>, then
  the assignments on \<open>improved_data\<close>. The comparison figures computed afterwards
  (means, production and revenue increase, ROI) only read the two tables and are left out.
\<close>

definition simulate_improvement_impact :: "heap \<Rightarrow> OEEImprovementPlan \<Rightarrow> ref \<times> heap" where
  "simulate_improvement_impact h self =
     (let (improved_data, h1) = alloc h (h ! current_data self);
          h2 = h1[improved_data := map improve_row (h1 ! improved_data)]
      in (improved_data, h2))"

text \<open>
The eleven columns written by the simulator.
\<close>

definition simulator_columns ::
  "row \<Rightarrow> (nat \<times> shift \<times> machine \<times> reason) \<times> real list" where
  "simulator_columns r =
     ((Date r, Shift r, Machine_Name r, Downtime_Reason r),
      [Planned_Production_Time r, Downtime_Minutes r, Ideal_Cycle_Time r, Actual_Cycle_Time r,
       Total_Units_Produced r, Defective_Units r, Good_Units r])"

text \<open>
The analyzer and the heap after the simulator has produced the one row of \<open>row_ex\<close>.
\<close>

definition an_sim :: OEEAnalyzer where
  "an_sim = \<lparr> raw_data = Some 0, oee_results = None \<rparr>"

definition h_sim :: heap where
  "h_sim = [row_ex] # []"

text \<open>
A plan whose baseline is the calculated table.
\<close>

definition plan_ex :: OEEImprovementPlan where
  "plan_ex = \<lparr> current_data = 0 \<rparr>"

definition h_calc :: heap where
  "h_calc = [calc_row row_ex] # []"

definition da_ex :: DetailedOEEAnalysis where
  "da_ex = \<lparr> data = Some 0, detailed_raw_data = Some 0 \<rparr>"

section \<open>Downtime Pareto (\<open>DetailedOEEAnalysis.downtime_pareto_analysis\<close>)\<close>

text \<open>
  One row of \<open>downtime_summary\<close>, indexed by the reason. The function reads the table
  \<open>self.raw_data\<close> refers to and changes no table (the filtered rows are a copy), so it
  is modelled as a function of that table. Its second result, the sums by machine and
  reason, is left out.
\<close>

record pareto_row =
  Reason :: reason
  Total_Downtime_Min :: real
  Avg_Downtime_Min :: real
  Frequency :: nat
  Records :: nat
  Cumulative_Pct :: "fl option"

text \<open>
\<open>groupby\<close> yields the keys that occur, in the order of their strings.
\<close>

definition reasons_sorted :: "reason list" where
  "reasons_sorted = [Breakdown, Changeover, Cleaning, Minor_Stoppage, No_Reason, Power_Failure]"

definition groupby_reason :: "dataframe \<Rightarrow> (reason \<times> dataframe) list" where
  "groupby_reason df =
     filter (\<lambda>(k, g). g \<noteq> [])
       (map (\<lambda>k. (k, filter (\<lambda>r. Downtime_Reason r = k) df)) reasons_sorted)"

text \<open>
\<open>agg\<close> of sum, mean and count, then \<open>.round(2)\<close>.
\<close>

definition summary_row :: "reason \<times> dataframe \<Rightarrow> pareto_row" where
  "summary_row kg =
     (let g = snd kg; s = sum_list (map Downtime_Minutes g)
      in \<lparr> Reason = fst kg,
           Total_Downtime_Min = py_round s 2,
           Avg_Downtime_Min = py_round (s / of_nat (length g)) 2,
           Frequency = length g,
           Records = length g,
           Cumulative_Pct = None \<rparr>)"

text \<open>
\<open>cumsum()\<close>: the running sums.
\<close>

fun cumsum_from :: "real \<Rightarrow> real list \<Rightarrow> real list" where
  "cumsum_from acc [] = []"
| "cumsum_from acc (x # xs) = (acc + x) # cumsum_from (acc + x) xs"

definition cumsum :: "real list \<Rightarrow> real list" where
  "cumsum xs = cumsum_from 0 xs"

text \<open>
\<open>(cumsum / sum * 100).round(1)\<close> at one row.
\<close>

definition cumulative_pct :: "real \<Rightarrow> real \<Rightarrow> fl" where
  "cumulative_pct grand c = fl_round (fl_mul (fl_div (Num c) (Num grand)) (Num 100)) 1"

text \<open>
  The summary table: filter, group, aggregate, \<open>sort_values(ascending=False)\<close> on
  the (rounded) total, cumulative percentage. Rows with equal totals keep the order of the
  groups here; the properties below do not depend on it.
\<close>

definition downtime_summary :: "dataframe \<Rightarrow> pareto_row list" where
  "downtime_summary raw =
     (let downtime_data = filter (\<lambda>r. 0 < Downtime_Minutes r) raw;
          summary = map summary_row (groupby_reason downtime_data);
          sorted_summary = sort_key (\<lambda>s. - Total_Downtime_Min s) summary;
          totals = map Total_Downtime_Min sorted_summary;
          pcts = map (cumulative_pct (sum_list totals)) (cumsum totals)
      in map2 (\<lambda>s c. s \<lparr> Cumulative_Pct := Some c \<rparr>) sorted_summary pcts)"

text \<open>
  A batch with three reasons whose downtimes add up to 100, 50 and 50 minutes, and one
  record without downtime.
\<close>

definition batch_pareto :: dataframe where
  "batch_pareto =
     [mk_row Morning Mixer 480 60 Breakdown 45 50 500 5,
      mk_row Night Filler 420 50 Changeover (5 / 2) 3 7400 100,
      mk_row Morning Packer 480 0 No_Reason 3 4 7200 50,
      mk_row Afternoon Mixer 480 40 Breakdown 45 50 520 5,
      mk_row Afternoon Conveyor 480 (61 / 2) Cleaning (9 / 5) 2 13000 30,
      mk_row Night Conveyor 420 (39 / 2) Cleaning (9 / 5) 2 12000 30]"

text \<open>
A batch whose only downtime is a thousandth of a minute.
\<close>

definition batch_tiny :: dataframe where
  "batch_tiny = [mk_row Morning Conveyor 480 (1 / 1000) Minor_Stoppage (9 / 5) 2 14000 30]"

text \<open>
The summary after \<open>sort_values\<close>, before the cumulative column is assigned.
\<close>

definition sorted_summary :: "dataframe \<Rightarrow> pareto_row list" where
  "sorted_summary raw =
     sort_key (\<lambda>s. - Total_Downtime_Min s)
       (map summary_row (groupby_reason (filter (\<lambda>r. 0 < Downtime_Minutes r) raw)))"

section \<open>The two-record scenario\<close>

text \<open>
  C1. On the batch of record A (planned 480, downtime 0, ideal 2.5, actual 2.5, 11520 units,
  no defects) and record B (planned 480, downtime 240, ideal 2.5, actual 5.0, 2880 units,
  288 defects) the calculator gives A the metrics 100, 100, 100, 100 and B the metrics
  50, 50, 90, 22.5.
\<close>

theorem scenario_two_records:
  "map (metrics \<circ> calc_row) [record_A, record_B] =
     [(Some (Num 100), Some (Num 100), Some (Num 100), Some (Num 100)),
      (Some (Num 50), Some (Num 50), Some (Num 90), Some (Num (45 / 2)))]"
  by (simp add: metrics_def calc_row_def raw_availability_def raw_performance_def
      raw_quality_def raw_oee_def record_A_def record_B_def mk_row_def Let_def)

section \<open>Rounding and truncation\<close>

lemma round_half_even_bounds:
  "\<lfloor>x\<rfloor> \<le> round_half_even x" "round_half_even x \<le> \<lfloor>x\<rfloor> + 1"
  by (simp_all add: round_half_even_def Let_def)

lemma round_half_even_mono:
  assumes "x \<le> y" shows "round_half_even x \<le> round_half_even y"
proof (cases "\<lfloor>x\<rfloor> = \<lfloor>y\<rfloor>")
  case True
  with assms show ?thesis
    by (auto simp: round_half_even_def Let_def)
next
  case False
  with assms have "\<lfloor>x\<rfloor> + 1 \<le> \<lfloor>y\<rfloor>"
    using floor_mono [of x y] by linarith
  with round_half_even_bounds(2) [of x] round_half_even_bounds(1) [of y]
  show ?thesis by linarith
qed

lemma round_half_even_of_int [simp]: "round_half_even (of_int k) = k"
  by (simp add: round_half_even_def Let_def)

lemma py_round_mono: "x \<le> y \<Longrightarrow> py_round x n \<le> py_round y n"
  by (simp add: py_round_def round_half_even_mono divide_right_mono)

lemma py_round_of_int [simp]: "py_round (of_int k) n = of_int k"
proof -
  have "(of_int k :: real) * 10 ^ n = of_int (k * 10 ^ n)" by simp
  then have "round_half_even (of_int k * 10 ^ n) = k * 10 ^ n"
    by (simp only: round_half_even_of_int)
  then show ?thesis by (simp add: py_round_def)
qed

lemma py_round_0 [simp]: "py_round 0 n = 0"
  using py_round_of_int [of 0 n] by simp

lemma py_round_numeral [simp]: "py_round (numeral k) n = numeral k"
  using py_round_of_int [of "numeral k" n] by simp

lemma py_round_nonneg: "0 \<le> x \<Longrightarrow> 0 \<le> py_round x n"
  using py_round_mono [of 0 x n] by simp

section \<open>Simulator invariants\<close>

lemma raw_downtime_bounds:
  "0 \<le> raw_downtime d" "raw_downtime d \<le> planned_production_minutes (shift_draw d) * (1 / 2)"
  by (cases "shift_draw d"; simp add: raw_downtime_def)+

lemma half_planned_round:
  "py_round (planned_production_minutes s * (1 / 2)) n = planned_production_minutes s * (1 / 2)"
  by (cases s) simp_all

lemma stored_downtime_bounds:
  "0 \<le> py_round (raw_downtime d) 1"
  "py_round (raw_downtime d) 1 \<le> planned_production_minutes (shift_draw d) * (1 / 2)"
proof -
  show "0 \<le> py_round (raw_downtime d) 1"
    by (rule py_round_nonneg) (rule raw_downtime_bounds)
  show "py_round (raw_downtime d) 1 \<le> planned_production_minutes (shift_draw d) * (1 / 2)"
    using py_round_mono [OF raw_downtime_bounds(2), of d 1] by (simp only: half_planned_round)
qed

lemma generate_record_fields:
  assumes "generate_record d = Some r"
  shows "Planned_Production_Time r = planned_production_minutes (shift_draw d)"
    and "Downtime_Minutes r = py_round (raw_downtime d) 1"
    and "Downtime_Reason r = assign_reason (raw_downtime d) (reason_draw d)"
    and "Ideal_Cycle_Time r = ideal_cycle_time (machine_draw d)"
    and "Total_Units_Produced r =
           of_int (py_int ((planned_production_minutes (shift_draw d) - raw_downtime d) * 60 / cycle_draw d))"
    and "Defective_Units r = of_int (py_int (Total_Units_Produced r * defect_draw d / 100))"
    and "Good_Units r = Total_Units_Produced r - Defective_Units r"
  using assms by (auto simp: generate_record_def Let_def split: if_splits)

text \<open>
  C7. Every record emitted by the simulator has
  \<open>0 \<le> downtime_minutes \<le> 0.5 \<times> planned_production_time\<close>, for the stored (rounded)
  downtime and the planned time of its shift.
\<close>

theorem downtime_within_half_planned:
  assumes "generate_record d = Some r"
  shows "0 \<le> Downtime_Minutes r \<and> Downtime_Minutes r \<le> 0.5 * Planned_Production_Time r"
  using stored_downtime_bounds [of d] generate_record_fields(1,2) [OF assms] by simp

lemma valid_draws_ex: "valid_draws draws_ex"
  by (simp add: valid_draws_def draws_ex_def)

lemma generate_record_ex: "generate_record draws_ex = Some row_ex"
  by (simp add: generate_record_def draws_ex_def row_ex_def mk_row_def weekday_def Let_def
      raw_downtime_def assign_reason_def choice2_def py_round_def round_half_even_def py_int_def)

text \<open>
The bound of C7 at the draw \<open>draws_ex\<close>.
\<close>

theorem downtime_within_half_planned_witness:
  "generate_record draws_ex = Some row_ex \<and>
   0 \<le> Downtime_Minutes row_ex \<and> Downtime_Minutes row_ex \<le> 0.5 * Planned_Production_Time row_ex"
  using downtime_within_half_planned [OF generate_record_ex] generate_record_ex by simp

section \<open>Calculator on well-formed rows\<close>

lemma calc_row_metrics:
  "Availability (calc_row r) = Some (clip_upper 100 (raw_availability r))"
  "Performance (calc_row r) = Some (clip_upper 100 (raw_performance r))"
  "Quality (calc_row r) = Some (clip_upper 100 (raw_quality r))"
  "OEE (calc_row r) =
     Some (clip_upper 100 (raw_oee (raw_availability r) (raw_performance r) (raw_quality r)))"
  by (simp_all add: calc_row_def Let_def)

lemma planned_pos: "0 < planned_production_minutes s"
  by (cases s) simp_all

lemma raw_availability_num:
  assumes "0 < Planned_Production_Time r"
  shows "raw_availability r =
     Num ((Planned_Production_Time r - Downtime_Minutes r) / Planned_Production_Time r * 100)"
  using assms by (simp add: raw_availability_def)

lemma raw_performance_num:
  assumes "Downtime_Minutes r < Planned_Production_Time r"
  shows "raw_performance r =
     Num (Ideal_Cycle_Time r * Total_Units_Produced r /
          ((Planned_Production_Time r - Downtime_Minutes r) * 60) * 100)"
  using assms by (simp add: raw_performance_def Let_def)

lemma raw_quality_num:
  assumes "Total_Units_Produced r \<noteq> 0"
  shows "raw_quality r = Num (Good_Units r / Total_Units_Produced r * 100)"
  using assms by (simp add: raw_quality_def)

lemma calc_row_in_pct:
  assumes P: "0 < Planned_Production_Time r"
    and D: "0 \<le> Downtime_Minutes r" "Downtime_Minutes r \<le> Planned_Production_Time r * (1 / 2)"
    and I: "0 \<le> Ideal_Cycle_Time r"
    and T: "0 < Total_Units_Produced r"
    and G: "0 \<le> Good_Units r"
  shows "in_pct (Availability (calc_row r))" "in_pct (Performance (calc_row r))"
    "in_pct (Quality (calc_row r))" "in_pct (OEE (calc_row r))"
proof -
  let ?P = "Planned_Production_Time r" and ?D = "Downtime_Minutes r"
  let ?a = "(?P - ?D) / ?P * 100"
  let ?p = "Ideal_Cycle_Time r * Total_Units_Produced r / ((?P - ?D) * 60) * 100"
  let ?q = "Good_Units r / Total_Units_Produced r * 100"
  from P D have lt: "?D < ?P" by simp
  have a: "raw_availability r = Num ?a" by (rule raw_availability_num [OF P])
  have p: "raw_performance r = Num ?p" by (rule raw_performance_num [OF lt])
  have q: "raw_quality r = Num ?q" using T by (simp add: raw_quality_num)
  have a0: "0 \<le> ?a" using P lt by simp
  have p0: "0 \<le> ?p" using I T lt by simp
  have q0: "0 \<le> ?q" using G T by simp
  show "in_pct (Availability (calc_row r))"
    using a0 by (simp add: calc_row_metrics a in_pct_def)
  show "in_pct (Performance (calc_row r))"
    using p0 by (simp add: calc_row_metrics p in_pct_def)
  show "in_pct (Quality (calc_row r))"
    using q0 by (simp add: calc_row_metrics q in_pct_def)
  have "0 \<le> ?a * ?p" using a0 p0 by (rule mult_nonneg_nonneg)
  then have "0 \<le> ?a * ?p * ?q" using q0 by (rule mult_nonneg_nonneg)
  then have "0 \<le> ?a * ?p * ?q / 10000" by simp
  then show "in_pct (OEE (calc_row r))"
    by (simp add: calc_row_metrics a p q in_pct_def raw_oee_def)
qed

lemma py_int_nonneg: "0 \<le> x \<Longrightarrow> 0 \<le> py_int x"
  by (simp add: py_int_def)

lemma py_int_le: "0 \<le> x \<Longrightarrow> of_int (py_int x) \<le> x"
  by (simp add: py_int_def)

lemma py_int_pos: "1 \<le> x \<Longrightarrow> 0 < py_int x"
  by (simp add: py_int_def)

lemma cycle_draw_bounds:
  assumes "valid_draws d"
  shows "0 < cycle_draw d" "cycle_draw d < 65"
  using assms by (cases "machine_draw d"; simp add: valid_draws_def)+

lemma defect_draw_bounds:
  assumes "valid_draws d"
  shows "0 \<le> defect_draw d" "defect_draw d \<le> 100"
  using assms by (cases "machine_draw d"; simp add: valid_draws_def)+

lemma ideal_cycle_time_pos: "0 < ideal_cycle_time m"
  by (cases m) simp_all

lemma available_time_bound:
  "210 \<le> planned_production_minutes (shift_draw d) - raw_downtime d"
  using raw_downtime_bounds(2) [of d] by (cases "shift_draw d") simp_all

lemma total_units_pos:
  assumes "valid_draws d" "generate_record d = Some r"
  shows "0 < Total_Units_Produced r"
proof -
  let ?av = "planned_production_minutes (shift_draw d) - raw_downtime d"
  have c: "0 < cycle_draw d" "cycle_draw d < 65" by (rule cycle_draw_bounds [OF assms(1)])+
  have "210 * 60 \<le> ?av * 60" using available_time_bound [of d] by simp
  then have "cycle_draw d \<le> ?av * 60" using c(2) by simp
  then have "1 \<le> ?av * 60 / cycle_draw d" using c(1) by (simp add: le_divide_eq)
  then have "0 < py_int (?av * 60 / cycle_draw d)" by (rule py_int_pos)
  then show ?thesis by (simp add: generate_record_fields(5) [OF assms(2)])
qed

lemma good_units_nonneg:
  assumes "valid_draws d" "generate_record d = Some r"
  shows "0 \<le> Good_Units r"
proof -
  let ?T = "Total_Units_Produced r"
  have T: "0 < ?T" by (rule total_units_pos [OF assms])
  have e: "0 \<le> defect_draw d" "defect_draw d \<le> 100" by (rule defect_draw_bounds [OF assms(1)])+
  have x0: "0 \<le> ?T * defect_draw d / 100" using T e(1) by simp
  have "?T * defect_draw d \<le> ?T * 100" using T e(2) by simp
  then have "?T * defect_draw d / 100 \<le> ?T" by simp
  with py_int_le [OF x0] have "Defective_Units r \<le> ?T"
    by (simp add: generate_record_fields(6) [OF assms(2)])
  then show ?thesis by (simp add: generate_record_fields(7) [OF assms(2)])
qed

text \<open>
  C2. For every record the simulator emits from draws within the ranges of the random
  library, the calculator's availability, performance, quality and oee are finite and lie
  in \<open>[0, 100]\<close>. The clip gives the upper bound only; the lower bound and finiteness
  come from the simulator: downtime at most half the planned time, units produced
  positive, defects at most the units.
\<close>

theorem metrics_within_0_100:
  assumes "valid_draws d" and "generate_record d = Some r"
  shows "in_pct (Availability (calc_row r)) \<and> in_pct (Performance (calc_row r)) \<and>
         in_pct (Quality (calc_row r)) \<and> in_pct (OEE (calc_row r))"
proof -
  note f = generate_record_fields [OF assms(2)]
  have P: "0 < Planned_Production_Time r" by (simp add: f(1) planned_pos)
  have D: "0 \<le> Downtime_Minutes r" "Downtime_Minutes r \<le> Planned_Production_Time r * (1 / 2)"
    using stored_downtime_bounds [of d] by (simp_all only: f(1,2))
  have I: "0 \<le> Ideal_Cycle_Time r" using ideal_cycle_time_pos [of "machine_draw d"] by (simp add: f(4))
  have T: "0 < Total_Units_Produced r" by (rule total_units_pos [OF assms])
  have G: "0 \<le> Good_Units r" by (rule good_units_nonneg [OF assms])
  show ?thesis
    using calc_row_in_pct [OF P D I T G] by simp
qed

text \<open>
The bounds of C2 at the draw \<open>draws_ex\<close>.
\<close>

theorem metrics_within_0_100_witness:
  "valid_draws draws_ex \<and> generate_record draws_ex = Some row_ex \<and>
   in_pct (Availability (calc_row row_ex)) \<and> in_pct (Performance (calc_row row_ex)) \<and>
   in_pct (Quality (calc_row row_ex)) \<and> in_pct (OEE (calc_row row_ex))"
  using metrics_within_0_100 [OF valid_draws_ex generate_record_ex] valid_draws_ex generate_record_ex
  by simp

text \<open>
  C10. For every record the simulator emits, half the planned time is positive and is at
  most the available time, both for the raw downtime the simulator computes with and for
  the stored downtime the calculator reads; so neither divisor of the calculator's
  availability and performance is zero, and the raw availability is a finite value of at
  least 50.
\<close>

theorem available_at_least_half:
  assumes "generate_record d = Some r"
  shows "0 < 0.5 * Planned_Production_Time r \<and>
         0.5 * Planned_Production_Time r \<le> Planned_Production_Time r - raw_downtime d \<and>
         0.5 * Planned_Production_Time r \<le> Planned_Production_Time r - Downtime_Minutes r \<and>
         Planned_Production_Time r \<noteq> 0 \<and>
         (Planned_Production_Time r - Downtime_Minutes r) * 60 \<noteq> 0 \<and>
         at_least_half (raw_availability r)"
proof -
  note f = generate_record_fields [OF assms]
  let ?P = "Planned_Production_Time r"
  have P: "0 < ?P" by (simp add: f(1) planned_pos)
  have R: "raw_downtime d \<le> ?P * (1 / 2)" using raw_downtime_bounds(2) [of d] by (simp only: f(1))
  have D: "Downtime_Minutes r \<le> ?P * (1 / 2)"
    using stored_downtime_bounds(2) [of d] by (simp only: f(1,2))
  have "50 * ?P \<le> (?P - Downtime_Minutes r) * 100" using D by simp
  then have "50 \<le> (?P - Downtime_Minutes r) / ?P * 100" using P by (simp add: le_divide_eq)
  then have A: "at_least_half (raw_availability r)"
    by (simp add: raw_availability_num [OF P] at_least_half_def)
  show ?thesis using P R D A by simp
qed

text \<open>
The bounds of C10 at the draw \<open>draws_ex\<close>.
\<close>

theorem available_at_least_half_witness:
  "generate_record draws_ex = Some row_ex \<and>
   0 < 0.5 * Planned_Production_Time row_ex \<and>
   0.5 * Planned_Production_Time row_ex \<le> Planned_Production_Time row_ex - raw_downtime draws_ex \<and>
   0.5 * Planned_Production_Time row_ex \<le> Planned_Production_Time row_ex - Downtime_Minutes row_ex \<and>
   Planned_Production_Time row_ex \<noteq> 0 \<and>
   (Planned_Production_Time row_ex - Downtime_Minutes row_ex) * 60 \<noteq> 0 \<and>
   at_least_half (raw_availability row_ex)"
  using available_at_least_half [OF generate_record_ex] generate_record_ex by simp

text \<open>
  C6. The claim is that the stored reason is \<open>'None'\<close> exactly when the stored downtime
  is 0. The simulator picks the reason from the raw downtime and stores the downtime
  rounded to one decimal: a raw downtime of 0.04 minutes gets the reason
  \<open>'Minor Stoppage'\<close> and is stored as 0.0.
\<close>

theorem reason_set_but_stored_downtime_zero:
  "valid_draws draws_tiny \<and>
   map_option Downtime_Reason (generate_record draws_tiny) = Some Minor_Stoppage \<and>
   map_option Downtime_Minutes (generate_record draws_tiny) = Some 0"
  by (simp add: valid_draws_def generate_record_def draws_tiny_def weekday_def Let_def
      raw_downtime_def assign_reason_def choice2_def py_round_def round_half_even_def)

section \<open>Clipping and the composite\<close>

text \<open>
  C8. The calculator does not guarantee \<open>oee \<le> min(availability, performance, quality)\<close>
  after clipping: there is a row, with raw performance above 100, whose clipped oee is
  strictly greater than the least of its clipped components, because the composite is
  computed from the raw components and clipped on its own.
\<close>

theorem oee_above_min_component:
  "\<exists>r a p q e x. metrics (calc_row r) = (Some (Num a), Some (Num p), Some (Num q), Some (Num e)) \<and>
     raw_performance r = Num x \<and> 100 < x \<and> min a (min p q) < e"
proof -
  have "metrics (calc_row record_over) =
          (Some (Num 100), Some (Num 100), Some (Num 90), Some (Num 100))"
    by (simp add: metrics_def calc_row_def raw_availability_def raw_performance_def
        raw_quality_def raw_oee_def record_over_def mk_row_def Let_def)
  moreover have "raw_performance record_over = Num 125"
    by (simp add: raw_performance_def record_over_def mk_row_def Let_def)
  ultimately show ?thesis
    by (intro exI [of _ record_over] exI [of _ 100] exI [of _ 90] exI [of _ 125]) simp
qed

section \<open>Rows without units\<close>

text \<open>
  C3, as stated, fails: the claim is that a record with no units gets the sentinel 0 for
  performance and quality and is flagged. On \<open>record_zero\<close> the quality is
  \<open>NaN\<close> (0 / 0), not a sentinel.
\<close>

theorem zero_units_quality_nan:
  "Total_Units_Produced record_zero = 0 \<and> Quality (calc_row record_zero) = Some NaN"
  by (simp add: calc_row_def raw_quality_def record_zero_def mk_row_def Let_def fl_of_sign_def)

text \<open>
  C3, amended. A record with no units (hence no good units) and positive operating time
  raises nothing in the calculator: performance is 0, quality and oee are \<open>NaN\<close>.
  The calculator returns only the table with the four metric columns: there is no flag
  and no discard tally.
\<close>

theorem zero_units_policy:
  assumes "Total_Units_Produced r = 0" and "Good_Units r = 0"
    and "Downtime_Minutes r < Planned_Production_Time r"
  shows "Performance (calc_row r) = Some (Num 0) \<and> Quality (calc_row r) = Some NaN \<and>
         OEE (calc_row r) = Some NaN"
proof -
  have p: "raw_performance r = Num 0" using assms by (simp add: raw_performance_num)
  have q: "raw_quality r = NaN" using assms by (simp add: raw_quality_def fl_of_sign_def)
  have o: "raw_oee a b NaN = NaN" for a b
    by (cases "fl_mul a b") (simp_all add: raw_oee_def)
  show ?thesis by (simp add: calc_row_metrics p q o)
qed

text \<open>
The amended C3 at \<open>record_zero\<close>.
\<close>

theorem zero_units_policy_witness:
  "Total_Units_Produced record_zero = 0 \<and> Good_Units record_zero = 0 \<and>
   Downtime_Minutes record_zero < Planned_Production_Time record_zero \<and>
   Performance (calc_row record_zero) = Some (Num 0) \<and>
   Quality (calc_row record_zero) = Some NaN \<and> OEE (calc_row record_zero) = Some NaN"
proof -
  have h: "Total_Units_Produced record_zero = 0" "Good_Units record_zero = 0"
    "Downtime_Minutes record_zero < Planned_Production_Time record_zero"
    by (simp_all add: record_zero_def mk_row_def)
  show ?thesis using zero_units_policy [OF h] h by simp
qed

section \<open>Frame properties\<close>

text \<open>
  C9. \<open>simulate_improvement_impact\<close> works on a copy: the improved table is a new
  table, different from the baseline \<open>current_data\<close>, and every table that existed
  before the call, the baseline among them, is the same afterwards, row by row and field
  by field.
\<close>

theorem improvement_leaves_baseline:
  assumes "current_data self < length h"
  shows "fst (simulate_improvement_impact h self) = length h \<and>
         fst (simulate_improvement_impact h self) \<noteq> current_data self \<and>
         (\<forall>a < length h. snd (simulate_improvement_impact h self) ! a = h ! a) \<and>
         snd (simulate_improvement_impact h self) ! current_data self = h ! current_data self \<and>
         snd (simulate_improvement_impact h self) ! fst (simulate_improvement_impact h self) =
           map improve_row (h ! current_data self)"
  using assms
  by (auto simp: simulate_improvement_impact_def alloc_def Let_def nth_append)

lemma generate_production_data_ex:
  "generate_production_data [] OEEAnalyzer_init [draws_ex] = Inr (0, an_sim, h_sim)"
  by (simp add: generate_production_data_def generate_rows_def List.map_filter_simps
      generate_record_ex alloc_def OEEAnalyzer_init_def an_sim_def h_sim_def)

text \<open>
  C4, as stated, fails: the claim is that no stage changes another stage's output in
  place. The calculator returns the very table the simulator produced (reference 0), and
  that table now has an \<open>Availability\<close> column it did not have before.
\<close>

theorem calculator_mutates_simulator_table:
  "fst (calculate_oee_metrics h_sim an_sim 0) = 0 \<and>
   map Availability (snd (snd (calculate_oee_metrics h_sim an_sim 0)) ! 0) = [Some (Num (4447 / 48))] \<and>
   map Availability (h_sim ! 0) = [None]"
  by (simp add: calculate_oee_metrics_def alloc_def Let_def h_sim_def calc_row_metrics
      raw_availability_def row_ex_def mk_row_def)

lemma simulator_columns_calc_row: "simulator_columns (calc_row r) = simulator_columns r"
  by (simp add: simulator_columns_def calc_row_def Let_def)

lemma loss_columns_frame:
  "simulator_columns (r \<lparr> Speed_Loss_Percent := x \<rparr>) = simulator_columns r"
  "simulator_columns (r \<lparr> Defect_Rate_Percent := x \<rparr>) = simulator_columns r"
  "metrics (r \<lparr> Speed_Loss_Percent := x \<rparr>) = metrics r"
  "metrics (r \<lparr> Defect_Rate_Percent := x \<rparr>) = metrics r"
  by (simp_all add: simulator_columns_def metrics_def)

text \<open>
  C4, amended. The calculator assigns the four metric columns in the table it is given,
  returns that same table and stores a copy of it as \<open>oee_results\<close>; the eleven
  simulator columns of the table and every other table are unchanged. The speed-loss and
  quality-loss analyses assign \<open>Speed_Loss_Percent\<close> and \<open>Defect_Rate_Percent\<close> in
  the table \<open>self.data\<close> refers to (the analyzer's \<open>oee_results\<close>); its simulator
  and metric columns and every other table are unchanged.
\<close>

theorem in_place_column_assignment:
  assumes "df < length h" and "data da = Some a" and "a < length h"
  shows "fst (calculate_oee_metrics h self df) = df \<and>
         oee_results (fst (snd (calculate_oee_metrics h self df))) = Some (length h) \<and>
         snd (snd (calculate_oee_metrics h self df)) ! df = map calc_row (h ! df) \<and>
         snd (snd (calculate_oee_metrics h self df)) ! length h = map calc_row (h ! df) \<and>
         map simulator_columns (snd (snd (calculate_oee_metrics h self df)) ! df) =
           map simulator_columns (h ! df) \<and>
         (\<forall>b < length h. b \<noteq> df \<longrightarrow> snd (snd (calculate_oee_metrics h self df)) ! b = h ! b) \<and>
         (\<exists>h'. speed_loss_analysis h da = Inr h' \<and> length h' = length h \<and>
               map Speed_Loss_Percent (h' ! a) = map (Some \<circ> speed_loss_percent) (h ! a) \<and>
               map simulator_columns (h' ! a) = map simulator_columns (h ! a) \<and>
               map metrics (h' ! a) = map metrics (h ! a) \<and>
               (\<forall>b < length h. b \<noteq> a \<longrightarrow> h' ! b = h ! b)) \<and>
         (\<exists>h'. quality_loss_analysis h da = Inr h' \<and> length h' = length h \<and>
               map Defect_Rate_Percent (h' ! a) = map (Some \<circ> defect_rate_percent) (h ! a) \<and>
               map simulator_columns (h' ! a) = map simulator_columns (h ! a) \<and>
               map metrics (h' ! a) = map metrics (h ! a) \<and>
               (\<forall>b < length h. b \<noteq> a \<longrightarrow> h' ! b = h ! b))"
proof -
  have c: "calculate_oee_metrics h self df =
      (df, self \<lparr> oee_results := Some (length h) \<rparr>,
       h[df := map calc_row (h ! df)] @ [map calc_row (h ! df)])"
    using assms(1) by (simp add: calculate_oee_metrics_def alloc_def Let_def)
  have 1: "(h[df := map calc_row (h ! df)] @ [map calc_row (h ! df)]) ! df = map calc_row (h ! df)"
    using assms(1) by (simp add: nth_append)
  have 2: "(h[df := map calc_row (h ! df)] @ [map calc_row (h ! df)]) ! length h
             = map calc_row (h ! df)"
    by (simp add: nth_append)
  have 3: "\<forall>b < length h. b \<noteq> df \<longrightarrow>
             (h[df := map calc_row (h ! df)] @ [map calc_row (h ! df)]) ! b = h ! b"
    by (simp add: nth_append)
  have s: "speed_loss_analysis h da =
      Inr (h[a := map (\<lambda>r. r \<lparr> Speed_Loss_Percent := Some (speed_loss_percent r) \<rparr>) (h ! a)])"
    by (simp add: speed_loss_analysis_def assms(2))
  have q: "quality_loss_analysis h da =
      Inr (h[a := map (\<lambda>r. r \<lparr> Defect_Rate_Percent := Some (defect_rate_percent r) \<rparr>) (h ! a)])"
    by (simp add: quality_loss_analysis_def assms(2))
  show ?thesis
    unfolding c s q using assms(3) 1 2 3
    by (simp add: simulator_columns_calc_row comp_def loss_columns_frame)
qed

text \<open>
C9 on a heap that holds one calculated table.
\<close>

theorem improvement_leaves_baseline_witness:
  "current_data plan_ex < length h_calc \<and>
   fst (simulate_improvement_impact h_calc plan_ex) = length h_calc \<and>
   fst (simulate_improvement_impact h_calc plan_ex) \<noteq> current_data plan_ex \<and>
   snd (simulate_improvement_impact h_calc plan_ex) ! current_data plan_ex
     = h_calc ! current_data plan_ex \<and>
   snd (simulate_improvement_impact h_calc plan_ex) ! fst (simulate_improvement_impact h_calc plan_ex)
     = map improve_row (h_calc ! current_data plan_ex)"
proof -
  have h: "current_data plan_ex < length h_calc" by (simp add: plan_ex_def h_calc_def)
  show ?thesis using improvement_leaves_baseline [OF h] h by blast
qed

text \<open>
The amended C4 on the simulator's one-row table.
\<close>

theorem in_place_column_assignment_witness:
  "(0::nat) < length h_sim \<and> data da_ex = Some 0 \<and>
   fst (calculate_oee_metrics h_sim an_sim 0) = 0 \<and>
   snd (snd (calculate_oee_metrics h_sim an_sim 0)) ! 0 = map calc_row (h_sim ! 0) \<and>
   (\<exists>h'. speed_loss_analysis h_sim da_ex = Inr h' \<and>
      map Speed_Loss_Percent (h' ! 0) = map (Some \<circ> speed_loss_percent) (h_sim ! 0))"
proof -
  have h: "(0::nat) < length h_sim" "data da_ex = Some 0"
    by (simp_all add: h_sim_def da_ex_def)
  show ?thesis
    using in_place_column_assignment [OF h(1) h(2) h(1), of an_sim] h by blast
qed

section \<open>Downtime Pareto: order and cumulative percentage\<close>

lemma py_round_hundredth: "py_round (1 / 100) 2 = 1 / 100"
  by (simp add: py_round_def round_half_even_def)

lemma length_cumsum_from [simp]: "length (cumsum_from acc xs) = length xs"
  by (induction xs arbitrary: acc) simp_all

lemma cumsum_from_ge:
  "\<forall>x\<in>set xs. 0 \<le> x \<Longrightarrow> c \<in> set (cumsum_from acc xs) \<Longrightarrow> acc \<le> c"
proof (induction xs arbitrary: acc)
  case Nil
  then show ?case by simp
next
  case (Cons x xs)
  then show ?case by fastforce
qed

lemma sorted_cumsum_from: "\<forall>x\<in>set xs. 0 \<le> x \<Longrightarrow> sorted (cumsum_from acc xs)"
proof (induction xs arbitrary: acc)
  case Nil
  then show ?case by simp
next
  case (Cons x xs)
  then show ?case using cumsum_from_ge [of xs _ "acc + x"] by auto
qed

lemma cumsum_from_Nil_iff [simp]: "cumsum_from acc xs = [] \<longleftrightarrow> xs = []"
  by (cases xs) simp_all

lemma last_cumsum_from:
  "xs \<noteq> [] \<Longrightarrow> last (cumsum_from acc xs) = acc + sum_list xs"
proof (induction xs arbitrary: acc)
  case Nil
  then show ?case by simp
next
  case (Cons x xs)
  show ?case
  proof (cases "xs = []")
    case True
    then show ?thesis by simp
  next
    case False
    then show ?thesis using Cons.IH [OF False, of "acc + x"] by (simp add: add.assoc)
  qed
qed

lemma group_member:
  assumes "(k, g) \<in> set (groupby_reason df)"
  shows "g \<noteq> []" "set g \<subseteq> set df"
  using assms by (auto simp: groupby_reason_def)

lemma sum_list_ge_member:
  fixes xs :: "real list"
  assumes "xs \<noteq> []" "\<forall>x\<in>set xs. c \<le> x" "0 \<le> c"
  shows "c \<le> sum_list xs"
proof -
  from assms(1) obtain x where x: "x \<in> set xs" by (cases xs) auto
  have "\<forall>y\<in>set xs. 0 \<le> y" using assms(2,3) by force
  then have "x \<le> sum_list xs" using x by (simp add: member_le_sum_list)
  with assms(2) x show ?thesis by force
qed

lemma summary_total_ge:
  assumes "\<forall>r\<in>set df. c \<le> Downtime_Minutes r" "0 \<le> c"
    and "s \<in> set (map summary_row (groupby_reason df))"
  shows "py_round c 2 \<le> Total_Downtime_Min s"
proof -
  from assms(3) obtain k g where kg: "(k, g) \<in> set (groupby_reason df)" "s = summary_row (k, g)"
    by auto
  have "map Downtime_Minutes g \<noteq> []" using group_member(1) [OF kg(1)] by simp
  moreover have "\<forall>x\<in>set (map Downtime_Minutes g). c \<le> x"
    using group_member(2) [OF kg(1)] assms(1) by auto
  ultimately have "c \<le> sum_list (map Downtime_Minutes g)"
    using assms(2) by (rule sum_list_ge_member)
  then show ?thesis by (simp add: kg(2) summary_row_def Let_def py_round_mono)
qed

lemma sorted_desc_sort_key:
  "sorted_wrt (\<ge>) (map f (sort_key (\<lambda>s. - f s) (xs :: 'a list)))" for f :: "'a \<Rightarrow> real"
proof -
  have "sorted (map (\<lambda>s. - f s) (sort_key (\<lambda>s. - f s) xs))" by (rule sorted_sort_key)
  then show ?thesis
    by (simp add: sorted_wrt_map)
qed

lemma assign_pct_totals:
  "length xs = length ys \<Longrightarrow>
   map Total_Downtime_Min (map2 (\<lambda>s c. s \<lparr> Cumulative_Pct := Some c \<rparr>) xs ys)
     = map Total_Downtime_Min xs"
  by (induction xs ys rule: list_induct2) simp_all

lemma assign_pct_column:
  "length xs = length ys \<Longrightarrow>
   map Cumulative_Pct (map2 (\<lambda>s c. s \<lparr> Cumulative_Pct := Some c \<rparr>) xs ys) = map Some ys"
  by (induction xs ys rule: list_induct2) simp_all

lemma downtime_summary_columns:
  "map Total_Downtime_Min (downtime_summary raw) = map Total_Downtime_Min (sorted_summary raw)"
  "map Cumulative_Pct (downtime_summary raw) =
     map (\<lambda>c. Some (cumulative_pct (sum_list (map Total_Downtime_Min (sorted_summary raw))) c))
       (cumsum (map Total_Downtime_Min (sorted_summary raw)))"
proof -
  let ?ss = "sorted_summary raw"
  let ?pcts = "map (cumulative_pct (sum_list (map Total_Downtime_Min ?ss)))
                 (cumsum (map Total_Downtime_Min ?ss))"
  have d: "downtime_summary raw = map2 (\<lambda>s c. s \<lparr> Cumulative_Pct := Some c \<rparr>) ?ss ?pcts"
    unfolding downtime_summary_def Let_def sorted_summary_def ..
  have l: "length ?ss = length ?pcts" by (simp add: cumsum_def)
  show "map Total_Downtime_Min (downtime_summary raw) = map Total_Downtime_Min ?ss"
    unfolding d by (rule assign_pct_totals [OF l])
  have "map Cumulative_Pct (downtime_summary raw) = map Some ?pcts"
    unfolding d by (rule assign_pct_column [OF l])
  also have "\<dots> = map (\<lambda>c. Some (cumulative_pct (sum_list (map Total_Downtime_Min ?ss)) c))
       (cumsum (map Total_Downtime_Min ?ss))"
    by (simp only: map_map comp_def)
  finally show "map Cumulative_Pct (downtime_summary raw) =
     map (\<lambda>c. Some (cumulative_pct (sum_list (map Total_Downtime_Min ?ss)) c))
       (cumsum (map Total_Downtime_Min ?ss))" .
qed

lemma sorted_summary_total_ge:
  assumes "\<forall>r\<in>set raw. 0 < Downtime_Minutes r \<longrightarrow> 1 / 100 \<le> Downtime_Minutes r"
    and "t \<in> set (map Total_Downtime_Min (sorted_summary raw))"
  shows "1 / 100 \<le> t"
proof -
  let ?dd = "filter (\<lambda>r. 0 < Downtime_Minutes r) raw"
  from assms(2) obtain s where s: "s \<in> set (map summary_row (groupby_reason ?dd))"
    "t = Total_Downtime_Min s"
    by (auto simp: sorted_summary_def)
  have "\<forall>r\<in>set ?dd. 1 / 100 \<le> Downtime_Minutes r" using assms(1) by simp
  then have "py_round (1 / 100) 2 \<le> Total_Downtime_Min s"
    using summary_total_ge [of ?dd "1 / 100" s] s(1) by simp
  then show ?thesis by (simp only: py_round_hundredth s(2))
qed

lemma cumulative_pct_num: "g \<noteq> 0 \<Longrightarrow> cumulative_pct g c = Num (py_round (c / g * 100) 1)"
  by (simp add: cumulative_pct_def)

text \<open>
  C5, amended. For any batch in which every positive downtime is at least 0.01 minutes
  (as in simulator output, which stores one decimal), the Pareto rows are sorted by total
  downtime in descending order, and the cumulative-percentage column, the running sum of
  the sorted totals divided by the grand total, times 100, rounded to one decimal, is
  finite, non-decreasing, and equal to 100 at the last row. Three reasons with totals
  100, 50 and 50 minutes give the totals [100, 50, 50] and the percentages
  [50.0, 75.0, 100.0].
\<close>

theorem pareto_sorted_cumulative:
  assumes "\<forall>r\<in>set raw. 0 < Downtime_Minutes r \<longrightarrow> 1 / 100 \<le> Downtime_Minutes r"
  shows "sorted_wrt (\<ge>) (map Total_Downtime_Min (downtime_summary raw)) \<and>
         (\<exists>cs. map Cumulative_Pct (downtime_summary raw) = map (Some \<circ> Num) cs \<and>
               cs = map (\<lambda>c. py_round
                          (c / sum_list (map Total_Downtime_Min (downtime_summary raw)) * 100) 1)
                      (cumsum (map Total_Downtime_Min (downtime_summary raw))) \<and>
               sorted cs \<and> (cs \<noteq> [] \<longrightarrow> last cs = 100)) \<and>
         map Total_Downtime_Min (downtime_summary batch_pareto) = [100, 50, 50] \<and>
         map Cumulative_Pct (downtime_summary batch_pareto)
           = [Some (Num 50), Some (Num 75), Some (Num 100)]"
proof -
  let ?ts = "map Total_Downtime_Min (sorted_summary raw)"
  let ?g = "sum_list ?ts"
  let ?f = "\<lambda>c. py_round (c / ?g * 100) 1"
  let ?cs = "map ?f (cumsum ?ts)"
  have ge: "\<forall>t\<in>set ?ts. 1 / 100 \<le> t"
    using sorted_summary_total_ge [OF assms] by blast
  then have nonneg: "\<forall>t\<in>set ?ts. 0 \<le> t" by force
  have g: "?ts \<noteq> [] \<Longrightarrow> 0 < ?g"
  proof -
    assume "?ts \<noteq> []"
    then have "1 / 100 \<le> ?g" using ge by (rule sum_list_ge_member) simp
    then show ?thesis by simp
  qed
  have desc: "sorted_wrt (\<ge>) (map Total_Downtime_Min (downtime_summary raw))"
    unfolding downtime_summary_columns(1) sorted_summary_def by (rule sorted_desc_sort_key)
  have col: "map Cumulative_Pct (downtime_summary raw) = map (Some \<circ> Num) ?cs"
  proof (cases "?ts = []")
    case True
    then show ?thesis by (simp add: downtime_summary_columns(2) cumsum_def)
  next
    case False
    then have "?g \<noteq> 0" using g by simp
    then show ?thesis
      by (simp add: downtime_summary_columns(2) cumulative_pct_num comp_def)
  qed
  have mono: "?f x \<le> ?f y" if "x \<le> y" "?ts \<noteq> []" for x y
  proof -
    have "x / ?g * 100 \<le> y / ?g * 100" using that g by (simp add: divide_right_mono)
    then show ?thesis by (rule py_round_mono)
  qed
  have srt: "sorted ?cs"
  proof (cases "?ts = []")
    case True
    then show ?thesis by (simp add: cumsum_def)
  next
    case False
    have "sorted (cumsum ?ts)" unfolding cumsum_def by (rule sorted_cumsum_from [OF nonneg])
    then show ?thesis using mono False by (simp add: sorted_wrt_map sorted_wrt_mono_rel [of _ "(\<le>)"]) 
  qed
  have lst: "?cs \<noteq> [] \<longrightarrow> last ?cs = 100"
  proof
    assume ne: "?cs \<noteq> []"
    then have ts: "?ts \<noteq> []" by (auto simp: cumsum_def)
    then have c: "cumsum ?ts \<noteq> []" by (simp add: cumsum_def)
    have "last ?cs = ?f (last (cumsum ?ts))" using c by (simp add: last_map)
    also have "last (cumsum ?ts) = ?g" using ts by (simp add: cumsum_def last_cumsum_from)
    also have "?f ?g = py_round 100 1" using g [OF ts] by simp
    finally show "last ?cs = 100" by simp
  qed
  have t3: "map Total_Downtime_Min (downtime_summary batch_pareto) = [100, 50, 50]"
    by (simp add: downtime_summary_columns(1) sorted_summary_def batch_pareto_def mk_row_def
        groupby_reason_def reasons_sorted_def summary_row_def Let_def)
  have c3: "map Cumulative_Pct (downtime_summary batch_pareto)
           = [Some (Num 50), Some (Num 75), Some (Num 100)]"
    unfolding downtime_summary_columns(2) t3 [unfolded downtime_summary_columns(1)]
    by (simp add: cumsum_def cumulative_pct_def)
  show ?thesis
    unfolding downtime_summary_columns(1)
    using desc col srt lst t3 c3 unfolding downtime_summary_columns(1) by blast
qed

text \<open>
  C5, as stated for any batch, fails: the totals are rounded to two decimals before the
  percentages are computed, so the batch whose only downtime is 0.001 minutes has the
  total 0.0, the grand total 0.0, and the cumulative percentage \<open>NaN\<close> (0 / 0)
  at its last row instead of 100.
\<close>

theorem pareto_tiny_total_nan:
  "map Downtime_Minutes batch_tiny = [1 / 1000] \<and>
   map Total_Downtime_Min (downtime_summary batch_tiny) = [0] \<and>
   map Cumulative_Pct (downtime_summary batch_tiny) = [Some NaN]"
  by (simp add: downtime_summary_columns sorted_summary_def batch_tiny_def mk_row_def
        groupby_reason_def reasons_sorted_def summary_row_def Let_def cumsum_def
        cumulative_pct_def py_round_def round_half_even_def fl_of_sign_def)

text \<open>
The amended C5 on the batch with totals 100, 50 and 50.
\<close>

theorem pareto_sorted_cumulative_witness:
  "sorted_wrt (\<ge>) (map Total_Downtime_Min (downtime_summary batch_pareto)) \<and>
   (\<exists>cs. map Cumulative_Pct (downtime_summary batch_pareto) = map (Some \<circ> Num) cs \<and>
         sorted cs \<and> last cs = 100)"
proof -
  have h: "\<forall>r\<in>set batch_pareto. 0 < Downtime_Minutes r \<longrightarrow> 1 / 100 \<le> Downtime_Minutes r"
    by (simp add: batch_pareto_def mk_row_def)
  from pareto_sorted_cumulative [OF h] obtain cs where
    d: "sorted_wrt (\<ge>) (map Total_Downtime_Min (downtime_summary batch_pareto))"
    and c: "map Cumulative_Pct (downtime_summary batch_pareto) = map (Some \<circ> Num) cs"
      "sorted cs" "cs \<noteq> [] \<longrightarrow> last cs = 100"
    and v: "map Cumulative_Pct (downtime_summary batch_pareto)
              = [Some (Num 50), Some (Num 75), Some (Num 100)]"
    by (elim conjE exE) (rule that, assumption+)
  from c(1) v have "cs \<noteq> []" by auto
  with c(3) have "last cs = 100" by simp
  with d c(1,2) show ?thesis by blast
qed

lemma stored_downtime_one_decimal:
  assumes "generate_record d = Some r" and "0 < Downtime_Minutes r"
  shows "1 / 10 \<le> Downtime_Minutes r"
proof -
  let ?k = "round_half_even (raw_downtime d * 10 ^ 1)"
  have e: "Downtime_Minutes r = of_int ?k / 10"
    by (simp add: generate_record_fields(2) [OF assms(1)] py_round_def)
  with assms(2) have "0 < ?k" by simp
  then have "(1::real) \<le> of_int ?k" by linarith
  then show ?thesis by (simp add: e)
qed

end
